theory Spec2Isabelle
  imports Main "HOL-Library.Word"
begin

section \<open>Hard coded shaders of the PowerVR Vulkan driver (pvr\_hardcode.c)\<close>

text \<open>
  The file keeps two constant tables, \<open>compilable_progs\<close> and \<open>hard_coding_table\<close>, and
  seven functions reading them. Every function first asks \<open>util_get_process_name()\<close> for
  the name of the running program; the model receives that name as the argument
  \<open>program\<close>. Declarations that the two files include from elsewhere
  (\<open>pvr_private.h\<close>, \<open>rogue/rogue.h\<close>, \<open>rogue_build_data.h\<close>, \<open>util/log.h\<close>, the Vulkan
  headers) are modelled where they are first used, each with a note of what was taken
  from this file's own use of them.
\<close>

subsection \<open>C strings and \<open>strcmp\<close>\<close>

text \<open>
  A C string is modelled by the list of its characters before the terminating NUL.
  \<open>strcmp\<close> compares the characters as unsigned bytes and stops at the first
  difference; the terminator of the shorter string is smaller than any character of the
  longer one. Only the sign of the result is fixed by the C standard, so the model
  returns \<open>-1\<close>, \<open>0\<close> or \<open>1\<close>.
\<close>

fun strcmp :: "string \<Rightarrow> string \<Rightarrow> int" where
  "strcmp [] [] = 0"
| "strcmp [] (d # ds) = - 1"
| "strcmp (c # cs) [] = 1"
| "strcmp (c # cs) (d # ds) =
     (if c = d then strcmp cs ds
      else if (of_char c :: nat) < of_char d then - 1 else 1)"

subsection \<open>Logging\<close>

text \<open>
  \<open>mesa_loge\<close> and \<open>mesa_logd\<close> (util/log.h) emit one formatted message at error and at
  debug level. The log is the list of the messages emitted so far, oldest first.
\<close>

datatype mesa_log_level = MESA_LOG_ERROR | MESA_LOG_DEBUG

type_synonym mesa_log = "(mesa_log_level \<times> string) list"

definition mesa_loge :: "string \<Rightarrow> mesa_log \<Rightarrow> mesa_log" where
  "mesa_loge msg l = l @ [(MESA_LOG_ERROR, msg)]"

definition mesa_logd :: "string \<Rightarrow> mesa_log \<Rightarrow> mesa_log" where
  "mesa_logd msg l = l @ [(MESA_LOG_DEBUG, msg)]"

subsection \<open>Data model\<close>

text \<open>
  Pointers to objects that this file only passes on (\<open>struct pvr_bo *\<close>,
  \<open>struct rogue_shader_binary *\<close>) are addresses; \<open>NULL\<close> is address 0. Structures
  declared outside the two files, and the members of such structures that this file never
  names, are values of the type parameter \<open>'o\<close>, about which nothing is assumed.
  Counts in structures declared elsewhere are natural numbers; the \<open>uint32_t\<close> members
  and parameters declared in these two files are 32-bit words.
\<close>

type_synonym addr = nat

definition NULL :: addr where
  "NULL = 0"

datatype pvr_hard_code_shader_type =
    PVR_HARD_CODE_SHADER_TYPE_COMPUTE
  | PVR_HARD_CODE_SHADER_TYPE_GRAPHICS

record pvr_explicit_constant_usage =
  start_offset :: "32 word"

text \<open>
  \<open>struct pvr_compute_pipeline_shader_state\<close> (pvr\_private.h): the members are those
  named by the initialiser of the table and by the call of the uploader.
\<close>

record pvr_compute_pipeline_shader_state =
  bo :: addr
  uses_atomic_ops :: bool
  uses_barrier :: bool
  uses_num_workgroups :: bool
  const_shared_reg_count :: nat
  input_register_count :: nat
  work_size :: nat
  coefficient_register_count :: nat

record 'o pvr_hard_code_compute_build_info =
  ubo_data :: 'o
  local_invocation_regs :: "32 word list"
  work_group_regs :: "32 word list"
  barrier_reg :: "32 word"
  usc_temps :: "32 word"
  explicit_conts_usage :: pvr_explicit_constant_usage

text \<open>
  \<open>struct rogue_common_build_data\<close> (rogue\_build\_data.h): this file reads \<open>temps\<close> and
  \<open>coeffs\<close>; the other members are carried along in \<open>common_rest\<close>.
\<close>

record 'o rogue_common_build_data =
  temps :: nat
  coeffs :: nat
  common_rest :: 'o

record 'o pvr_hard_code_graphics_build_info =
  stage_data :: 'o
  vert_common_data :: "'o rogue_common_build_data"
  frag_common_data :: "'o rogue_common_build_data"
  vert_explicit_conts_usage :: pvr_explicit_constant_usage
  frag_explicit_conts_usage :: pvr_explicit_constant_usage

text \<open>
  \<open>struct pvr_stage_allocation_state\<close>, \<open>struct pvr_vertex_shader_state\<close> and
  \<open>struct pvr_fragment_shader_state\<close> (pvr\_private.h): this file reads
  \<open>stage_state.temps_count\<close> and \<open>stage_state.coefficient_size\<close> and copies the records
  whole. The member \<open>stage_state\<close> is called \<open>vert_stage_state\<close> in the vertex record and
  \<open>frag_stage_state\<close> in the fragment record.
\<close>

record 'o pvr_stage_allocation_state =
  coefficient_size :: nat
  temps_count :: nat
  stage_rest :: 'o

record 'o pvr_vertex_shader_state =
  vert_stage_state :: "'o pvr_stage_allocation_state"
  vert_rest :: 'o

record 'o pvr_fragment_shader_state =
  frag_stage_state :: "'o pvr_stage_allocation_state"
  frag_rest :: 'o

text \<open>
  The two members of the anonymous union of \<open>struct pvr_hard_coding_data\<close>. The
  \<open>const uint8_t *\<close> of the compute member points to constant bytes and is modelled by
  them. Each array of the graphics member is the list of its elements; where an element
  is a pointer to a constant record, the list holds the record. The shader binaries are
  handed out by reference, so their lists hold the pointers.
\<close>

record 'o pvr_hard_coding_compute =
  shader :: "8 word list"
  shader_size :: nat
  shader_info :: pvr_compute_pipeline_shader_state
  build_info :: "'o pvr_hard_code_compute_build_info"

record 'o pvr_hard_coding_graphics =
  vert_shaders :: "addr list"
  frag_shaders :: "addr list"
  vert_shader_states :: "'o pvr_vertex_shader_state list"
  frag_shader_states :: "'o pvr_fragment_shader_state list"
  build_infos :: "'o pvr_hard_code_graphics_build_info list"
  shader_count :: "32 word"

datatype 'o pvr_hard_coding_union =
    compute "'o pvr_hard_coding_compute"
  | graphics "'o pvr_hard_coding_graphics"

record 'o pvr_hard_coding_data =
  name :: string
  type :: pvr_hard_code_shader_type
  payload :: "'o pvr_hard_coding_union"

subsection \<open>The two tables\<close>

definition compilable_progs :: "string list" where
  "compilable_progs = [''triangle'']"

text \<open>
  The table refers to three things defined outside the file: the byte array
  \<open>pvr_simple_compute_shader\<close>, the macro \<open>ROGUE_REG_UNUSED\<close> and the all-zero value of
  \<open>struct rogue_ubo_data\<close> (written \<open>{ 0 }\<close>). They are the three arguments. Members
  that the initialiser leaves out (\<open>bo\<close>) are zero.
\<close>

definition hard_coding_table ::
  "8 word list \<Rightarrow> 32 word \<Rightarrow> 'o \<Rightarrow> 'o pvr_hard_coding_data list" where
  "hard_coding_table pvr_simple_compute_shader ROGUE_REG_UNUSED ubo_zero =
     [\<lparr>name = ''simple-compute'',
       type = PVR_HARD_CODE_SHADER_TYPE_COMPUTE,
       payload = compute
         \<lparr>shader = pvr_simple_compute_shader,
          shader_size = length pvr_simple_compute_shader,
          shader_info =
            \<lparr>bo = NULL,
             uses_atomic_ops = False,
             uses_barrier = False,
             uses_num_workgroups = False,
             const_shared_reg_count = 4,
             input_register_count = 8,
             work_size = 1 * 1 * 1,
             coefficient_register_count = 4\<rparr>,
          build_info =
            \<lparr>ubo_data = ubo_zero,
             local_invocation_regs = [0, 1],
             work_group_regs = [0, 1, 2],
             barrier_reg = ROGUE_REG_UNUSED,
             usc_temps = 0,
             explicit_conts_usage = \<lparr>start_offset = 0\<rparr>\<rparr>\<rparr>\<rparr>]"

subsection \<open>\<open>pvr_hard_code_shader_required\<close>\<close>

text \<open>
  The \<open>for\<close> loop over \<open>compilable_progs\<close>, started at \<open>i = 0\<close>. The index is a
  \<open>uint32_t\<close> in the source; the array has one element, so it never wraps.
\<close>

function shader_required_loop :: "string \<Rightarrow> nat \<Rightarrow> bool" where
  "shader_required_loop program i =
     (if i < length compilable_progs then
        if strcmp program (compilable_progs ! i) = 0 then False
        else shader_required_loop program (i + 1)
      else True)"
  by pat_completeness auto
termination
  by (relation "measure (\<lambda>(program, i). length compilable_progs - i)") auto

declare shader_required_loop.simps [simp del]

definition pvr_hard_code_shader_required :: "string \<Rightarrow> bool" where
  "pvr_hard_code_shader_required program = shader_required_loop program 0"

subsection \<open>Fatal outcomes and the state around a call\<close>

text \<open>
  \<open>assert\<close> is modelled as compiled in: a failed assertion aborts the process. The
  process also dies when the \<open>NULL\<close> returned by an unsuccessful lookup is
  dereferenced. Two more outcomes mark where the model stops because C leaves the
  behaviour to the memory layout: reading the union member that the entry does not
  hold, and indexing an array of the table beyond its last element.
\<close>

datatype assertion =
    Assert_type_is_compute
  | Assert_type_is_graphics
  | Assert_pipeline_n_in_range
  | Assert_vertex_temps
  | Assert_fragment_temps
  | Assert_vertex_coeffs
  | Assert_fragment_coeffs

datatype fatal =
    Null_Dereference
  | Assertion_Failed assertion
  | Inactive_Union_Member
  | Out_Of_Bounds_Read

text \<open>
  Every function returns its outcome together with the state it leaves behind, also
  when the outcome is fatal: the state then shows what had been written before the
  process stopped. The part of the state common to all functions is the log; each
  function extends it by the objects its pointer arguments refer to.
\<close>

record world =
  logged :: mesa_log

type_synonym VkResult = int

definition VK_SUCCESS :: VkResult where
  "VK_SUCCESS = 0"

record ('o, 'dev) compute_pipeline_state = world +
  device :: 'dev
  shader_state_out :: pvr_compute_pipeline_shader_state
  build_info_out :: "'o pvr_hard_code_compute_build_info"

record graphics_shaders_state = world +
  vert_shader_out :: addr
  frag_shader_out :: addr

record 'o graphics_vertex_state = world +
  vert_state_out :: "'o pvr_vertex_shader_state"

record 'o graphics_fragment_state = world +
  frag_state_out :: "'o pvr_fragment_shader_state"

text \<open>
  \<open>struct rogue_build_ctx\<close> (rogue/rogue.h): this file writes \<open>stage_data\<close> and two
  elements of the array \<open>common_data\<close>, which is indexed by shader stage
  (\<open>gl_shader_stage\<close>). The array is a function of the stage. The member \<open>stage_data\<close>
  is called \<open>ctx_stage_data\<close>, apart from the member of that name in the build info.
\<close>

datatype gl_shader_stage =
    MESA_SHADER_VERTEX
  | MESA_SHADER_FRAGMENT
  | MESA_SHADER_OTHER nat

record 'o rogue_build_ctx =
  ctx_stage_data :: 'o
  common_data :: "gl_shader_stage \<Rightarrow> 'o rogue_common_build_data"
  ctx_rest :: 'o

record 'o graphics_inject_state = world +
  ctx :: "'o rogue_build_ctx"
  vert_common_data_out :: pvr_explicit_constant_usage
  frag_common_data_out :: pvr_explicit_constant_usage

subsection \<open>\<open>pvr_get_hard_coding_data\<close>\<close>

text \<open>
  The table is a file-scope constant in the source. The model takes it as the argument
  \<open>tbl\<close>, so that the graphics functions can be studied on tables that hold a graphics
  entry; the shipped table is \<open>hard_coding_table\<close> above. The returned pointer
  \<open>&hard_coding_table[i]\<close> is the index \<open>i\<close>, and \<open>NULL\<close> is \<open>None\<close>. The loop index is a
  \<open>uint32_t\<close> in the source and a natural number here: the model covers tables of fewer
  than \<open>2 ^ 32\<close> entries, on which the index does not wrap.
\<close>

function get_hard_coding_data_loop ::
  "'o pvr_hard_coding_data list \<Rightarrow> string \<Rightarrow> nat \<Rightarrow> nat option" where
  "get_hard_coding_data_loop tbl program i =
     (if i < length tbl then
        if strcmp program (name (tbl ! i)) = 0 then Some i
        else get_hard_coding_data_loop tbl program (i + 1)
      else None)"
  by pat_completeness auto
termination
  by (relation "measure (\<lambda>(tbl, program, i). length tbl - i)") auto

declare get_hard_coding_data_loop.simps [simp del]

definition pvr_get_hard_coding_data ::
  "'o pvr_hard_coding_data list \<Rightarrow> string \<Rightarrow> 'w world_scheme \<Rightarrow>
   nat option \<times> 'w world_scheme" where
  "pvr_get_hard_coding_data tbl program w =
     (case get_hard_coding_data_loop tbl program 0 of
        Some i \<Rightarrow> (Some i, w)
      | None \<Rightarrow>
          (None,
           w\<lparr>logged := mesa_loge (''Could not find hard coding data for '' @ program)
                         (logged w)\<rparr>))"

subsection \<open>\<open>pvr_hard_code_compute_pipeline\<close>\<close>

text \<open>
  \<open>rogue_get_slc_cache_line_size\<close> and \<open>pvr_gpu_upload_usc\<close> are defined elsewhere and
  are arguments. The uploader receives the device, the bytes, their number, the cache
  line size and the current content of the \<open>bo\<close> slot it was given the address of; it
  returns its \<open>VkResult\<close>, the content it leaves in the slot and the device afterwards.
\<close>

definition pvr_hard_code_compute_pipeline ::
  "'o pvr_hard_coding_data list \<Rightarrow> ('dev \<Rightarrow> 32 word) \<Rightarrow>
   ('dev \<Rightarrow> 8 word list \<Rightarrow> nat \<Rightarrow> 32 word \<Rightarrow> addr \<Rightarrow> VkResult \<times> addr \<times> 'dev) \<Rightarrow>
   string \<Rightarrow> ('o, 'dev) compute_pipeline_state \<Rightarrow>
   (fatal + VkResult) \<times> ('o, 'dev) compute_pipeline_state" where
  "pvr_hard_code_compute_pipeline tbl rogue_get_slc_cache_line_size pvr_gpu_upload_usc
       program w =
     (let cache_line_size = rogue_get_slc_cache_line_size (device w);
          (data, w1) = pvr_get_hard_coding_data tbl program w
      in case data of
           None \<Rightarrow> (Inl Null_Dereference, w1)
         | Some i \<Rightarrow>
             if type (tbl ! i) \<noteq> PVR_HARD_CODE_SHADER_TYPE_COMPUTE
             then (Inl (Assertion_Failed Assert_type_is_compute), w1)
             else
               let w2 = w1\<lparr>logged :=
                             mesa_logd (''Hard coding compute pipeline for '' @ name (tbl ! i))
                               (logged w1)\<rparr>
               in case payload (tbl ! i) of
                    graphics g \<Rightarrow> (Inl Inactive_Union_Member, w2)
                  | compute c \<Rightarrow>
                      let w3 = w2\<lparr>build_info_out := build_info c\<rparr>;
                          w4 = w3\<lparr>shader_state_out := shader_info c\<rparr>;
                          (result, bo', device') =
                             pvr_gpu_upload_usc (device w4) (shader c) (shader_size c)
                               cache_line_size (bo (shader_state_out w4))
                      in (Inr result,
                          w4\<lparr>device := device',
                             shader_state_out := (shader_state_out w4)\<lparr>bo := bo'\<rparr>\<rparr>))"

subsection \<open>The graphics accessors\<close>

text \<open>
  The two assertions at the head of each accessor. The second reads
  \<open>data->graphics.shader_count\<close>, which is there only when the entry holds the graphics
  member. The result is the entry \<open>*data\<close> with its graphics member, or the reason the
  process stopped.
\<close>

definition graphics_entry_checks ::
  "'o pvr_hard_coding_data list \<Rightarrow> nat option \<Rightarrow> 32 word \<Rightarrow>
   fatal + 'o pvr_hard_coding_data \<times> 'o pvr_hard_coding_graphics" where
  "graphics_entry_checks tbl data pipeline_n =
     (case data of
        None \<Rightarrow> Inl Null_Dereference
      | Some i \<Rightarrow>
          if type (tbl ! i) \<noteq> PVR_HARD_CODE_SHADER_TYPE_GRAPHICS
          then Inl (Assertion_Failed Assert_type_is_graphics)
          else
            case payload (tbl ! i) of
              compute c \<Rightarrow> Inl Inactive_Union_Member
            | graphics g \<Rightarrow>
                if \<not> pipeline_n < shader_count g
                then Inl (Assertion_Failed Assert_pipeline_n_in_range)
                else Inr (tbl ! i, g))"

definition pvr_hard_code_graphics_shaders ::
  "'o pvr_hard_coding_data list \<Rightarrow> string \<Rightarrow> 32 word \<Rightarrow> graphics_shaders_state \<Rightarrow>
   (fatal + unit) \<times> graphics_shaders_state" where
  "pvr_hard_code_graphics_shaders tbl program pipeline_n w =
     (let (data, w1) = pvr_get_hard_coding_data tbl program w
      in case graphics_entry_checks tbl data pipeline_n of
           Inl f \<Rightarrow> (Inl f, w1)
         | Inr (entry, g) \<Rightarrow>
             let w2 = w1\<lparr>logged :=
                           mesa_logd (''Hard coding graphics pipeline for '' @ name entry)
                             (logged w1)\<rparr>
             in if \<not> unat pipeline_n < length (vert_shaders g)
                then (Inl Out_Of_Bounds_Read, w2)
                else
                  let w3 = w2\<lparr>vert_shader_out := vert_shaders g ! unat pipeline_n\<rparr>
                  in if \<not> unat pipeline_n < length (frag_shaders g)
                     then (Inl Out_Of_Bounds_Read, w3)
                     else
                       (Inr (),
                        w3\<lparr>frag_shader_out := frag_shaders g ! unat pipeline_n\<rparr>))"

definition pvr_hard_code_graphics_vertex_state ::
  "'o pvr_hard_coding_data list \<Rightarrow> string \<Rightarrow> 32 word \<Rightarrow> 'o graphics_vertex_state \<Rightarrow>
   (fatal + unit) \<times> 'o graphics_vertex_state" where
  "pvr_hard_code_graphics_vertex_state tbl program pipeline_n w =
     (let (data, w1) = pvr_get_hard_coding_data tbl program w
      in case graphics_entry_checks tbl data pipeline_n of
           Inl f \<Rightarrow> (Inl f, w1)
         | Inr (entry, g) \<Rightarrow>
             if \<not> 0 < length (vert_shader_states g)
             then (Inl Out_Of_Bounds_Read, w1)
             else (Inr (), w1\<lparr>vert_state_out := vert_shader_states g ! 0\<rparr>))"

definition pvr_hard_code_graphics_fragment_state ::
  "'o pvr_hard_coding_data list \<Rightarrow> string \<Rightarrow> 32 word \<Rightarrow> 'o graphics_fragment_state \<Rightarrow>
   (fatal + unit) \<times> 'o graphics_fragment_state" where
  "pvr_hard_code_graphics_fragment_state tbl program pipeline_n w =
     (let (data, w1) = pvr_get_hard_coding_data tbl program w
      in case graphics_entry_checks tbl data pipeline_n of
           Inl f \<Rightarrow> (Inl f, w1)
         | Inr (entry, g) \<Rightarrow>
             if \<not> 0 < length (frag_shader_states g)
             then (Inl Out_Of_Bounds_Read, w1)
             else (Inr (), w1\<lparr>frag_state_out := frag_shader_states g ! 0\<rparr>))"

text \<open>
  The three assignments to the build context read the same element
  \<open>build_infos[pipeline_n]\<close>. Each of the four consistency assertions reads the context
  just written and the shader state at \<open>pipeline_n\<close>.
\<close>

definition pvr_hard_code_graphics_inject_build_info ::
  "'o pvr_hard_coding_data list \<Rightarrow> string \<Rightarrow> 32 word \<Rightarrow> 'o graphics_inject_state \<Rightarrow>
   (fatal + unit) \<times> 'o graphics_inject_state" where
  "pvr_hard_code_graphics_inject_build_info tbl program pipeline_n w =
     (let (data, w1) = pvr_get_hard_coding_data tbl program w;
          n = unat pipeline_n
      in case graphics_entry_checks tbl data pipeline_n of
           Inl f \<Rightarrow> (Inl f, w1)
         | Inr (entry, g) \<Rightarrow>
             if \<not> n < length (build_infos g) then (Inl Out_Of_Bounds_Read, w1)
             else
               let info = build_infos g ! n;
                   w2 = w1\<lparr>ctx := (ctx w1)\<lparr>ctx_stage_data := stage_data info\<rparr>\<rparr>;
                   w3 = w2\<lparr>ctx := (ctx w2)\<lparr>common_data :=
                           (common_data (ctx w2))
                             (MESA_SHADER_VERTEX := vert_common_data info)\<rparr>\<rparr>;
                   w4 = w3\<lparr>ctx := (ctx w3)\<lparr>common_data :=
                           (common_data (ctx w3))
                             (MESA_SHADER_FRAGMENT := frag_common_data info)\<rparr>\<rparr>
               in
                 if \<not> n < length (vert_shader_states g) then (Inl Out_Of_Bounds_Read, w4)
                 else if temps (common_data (ctx w4) MESA_SHADER_VERTEX) \<noteq>
                         temps_count (vert_stage_state (vert_shader_states g ! n))
                 then (Inl (Assertion_Failed Assert_vertex_temps), w4)
                 else if \<not> n < length (frag_shader_states g) then (Inl Out_Of_Bounds_Read, w4)
                 else if temps (common_data (ctx w4) MESA_SHADER_FRAGMENT) \<noteq>
                         temps_count (frag_stage_state (frag_shader_states g ! n))
                 then (Inl (Assertion_Failed Assert_fragment_temps), w4)
                 else if coeffs (common_data (ctx w4) MESA_SHADER_VERTEX) \<noteq>
                         coefficient_size (vert_stage_state (vert_shader_states g ! n))
                 then (Inl (Assertion_Failed Assert_vertex_coeffs), w4)
                 else if coeffs (common_data (ctx w4) MESA_SHADER_FRAGMENT) \<noteq>
                         coefficient_size (frag_stage_state (frag_shader_states g ! n))
                 then (Inl (Assertion_Failed Assert_fragment_coeffs), w4)
                 else
                   let w5 = w4\<lparr>vert_common_data_out := vert_explicit_conts_usage info\<rparr>
                   in (Inr (), w5\<lparr>frag_common_data_out := frag_explicit_conts_usage info\<rparr>))"

subsection \<open>Test fixtures\<close>

text \<open>
  Concrete inputs on which the theorems below are instantiated: a caller state whose
  output slots hold values different from anything in the table, and a mocked uploader
  that returns a given result, stores an address in the \<open>bo\<close> slot and counts its calls
  in the device.
\<close>

definition test_compute_state :: "(nat, nat) compute_pipeline_state" where
  "test_compute_state =
     \<lparr>logged = [], device = 10,
      shader_state_out =
        \<lparr>bo = 5, uses_atomic_ops = True, uses_barrier = True, uses_num_workgroups = True,
         const_shared_reg_count = 9, input_register_count = 9, work_size = 9,
         coefficient_register_count = 9\<rparr>,
      build_info_out =
        \<lparr>ubo_data = 9, local_invocation_regs = [], work_group_regs = [], barrier_reg = 9,
         usc_temps = 9, explicit_conts_usage = \<lparr>start_offset = 9\<rparr>\<rparr>\<rparr>"

definition test_upload ::
  "VkResult \<Rightarrow> nat \<Rightarrow> 8 word list \<Rightarrow> nat \<Rightarrow> 32 word \<Rightarrow> addr \<Rightarrow> VkResult \<times> addr \<times> nat" where
  "test_upload res d bs n l b = (res, 4096 + n, d + 1)"

text \<open>
  A table with one graphics entry for two pipelines. The build info of pipeline 0 agrees
  with the shader states of pipeline 0; the build info of pipeline 1 records 99 vertex
  temporaries where the vertex shader state of pipeline 1 records 3.
\<close>

definition test_graphics :: "nat pvr_hard_coding_graphics" where
  "test_graphics =
     \<lparr>vert_shaders = [100, 101],
      frag_shaders = [200, 201],
      vert_shader_states =
        [\<lparr>vert_stage_state = \<lparr>coefficient_size = 4, temps_count = 2, stage_rest = 10\<rparr>,
          vert_rest = 11\<rparr>,
         \<lparr>vert_stage_state = \<lparr>coefficient_size = 6, temps_count = 3, stage_rest = 12\<rparr>,
          vert_rest = 13\<rparr>],
      frag_shader_states =
        [\<lparr>frag_stage_state = \<lparr>coefficient_size = 8, temps_count = 5, stage_rest = 20\<rparr>,
          frag_rest = 21\<rparr>,
         \<lparr>frag_stage_state = \<lparr>coefficient_size = 9, temps_count = 7, stage_rest = 22\<rparr>,
          frag_rest = 23\<rparr>],
      build_infos =
        [\<lparr>stage_data = 30,
          vert_common_data = \<lparr>temps = 2, coeffs = 4, common_rest = 31\<rparr>,
          frag_common_data = \<lparr>temps = 5, coeffs = 8, common_rest = 32\<rparr>,
          vert_explicit_conts_usage = \<lparr>start_offset = 0\<rparr>,
          frag_explicit_conts_usage = \<lparr>start_offset = 16\<rparr>\<rparr>,
         \<lparr>stage_data = 40,
          vert_common_data = \<lparr>temps = 99, coeffs = 6, common_rest = 41\<rparr>,
          frag_common_data = \<lparr>temps = 7, coeffs = 9, common_rest = 42\<rparr>,
          vert_explicit_conts_usage = \<lparr>start_offset = 4\<rparr>,
          frag_explicit_conts_usage = \<lparr>start_offset = 20\<rparr>\<rparr>],
      shader_count = 2\<rparr>"

definition test_graphics_table :: "nat pvr_hard_coding_data list" where
  "test_graphics_table =
     [\<lparr>name = ''test-graphics'',
       type = PVR_HARD_CODE_SHADER_TYPE_GRAPHICS,
       payload = graphics test_graphics\<rparr>]"

definition test_inject_state :: "nat graphics_inject_state" where
  "test_inject_state =
     \<lparr>logged = [],
      ctx = \<lparr>ctx_stage_data = 0,
             common_data = (\<lambda>stage. \<lparr>temps = 0, coeffs = 0, common_rest = 0\<rparr>),
             ctx_rest = 50\<rparr>,
      vert_common_data_out = \<lparr>start_offset = 77\<rparr>,
      frag_common_data_out = \<lparr>start_offset = 78\<rparr>\<rparr>"

section \<open>Properties\<close>

subsection \<open>String comparison\<close>

lemma strcmp_eq_0_iff: "strcmp a b = 0 \<longleftrightarrow> a = b"
  by (induction a b rule: strcmp.induct) auto

subsection \<open>The applicability check\<close>

lemma shader_required_loop_iff:
  "shader_required_loop program i \<longleftrightarrow> program \<notin> set (drop i compilable_progs)"
proof (induction program i rule: shader_required_loop.induct)
  case (1 program i)
  show ?case
  proof (cases "i < length compilable_progs")
    case True
    then have d: "drop i compilable_progs = compilable_progs ! i # drop (i + 1) compilable_progs"
      by (simp add: Cons_nth_drop_Suc)
    show ?thesis
    proof (cases "strcmp program (compilable_progs ! i) = 0")
      case eq: True
      then have "program = compilable_progs ! i"
        by (simp add: strcmp_eq_0_iff)
      with True eq d show ?thesis
        by (subst shader_required_loop.simps) simp
    next
      case ne: False
      then have "program \<noteq> compilable_progs ! i"
        by (simp add: strcmp_eq_0_iff)
      with True ne d "1.IH" show ?thesis
        by (subst shader_required_loop.simps) simp
    qed
  next
    case False
    then show ?thesis
      by (subst shader_required_loop.simps) simp
  qed
qed

text \<open>
  Claim C2. \<open>pvr_hard_code_shader_required\<close> returns false when the process name is a
  member of the allow-list \<open>compilable_progs\<close>, which holds exactly "triangle", and true
  for every other name. The result is a function of the process name alone: the model
  takes no other argument and returns nothing but the boolean.
\<close>

theorem pvr_hard_code_shader_required_allow_list:
  "compilable_progs = [''triangle''] \<and>
   pvr_hard_code_shader_required program = (program \<notin> set compilable_progs) \<and>
   pvr_hard_code_shader_required program = (program \<noteq> ''triangle'')"
proof -
  have "pvr_hard_code_shader_required program = (program \<notin> set compilable_progs)"
    by (simp add: pvr_hard_code_shader_required_def shader_required_loop_iff)
  then show ?thesis
    by (simp add: compilable_progs_def)
qed

subsection \<open>Looking up the entry of the running program\<close>


lemma get_hard_coding_data_loop_Some:
  "get_hard_coding_data_loop tbl program i = Some k \<Longrightarrow>
   i \<le> k \<and> k < length tbl \<and> name (tbl ! k) = program \<and>
   (\<forall>j. i \<le> j \<and> j < k \<longrightarrow> name (tbl ! j) \<noteq> program)"
proof (induction tbl program i rule: get_hard_coding_data_loop.induct)
  case (1 tbl program i)
  show ?case
  proof (cases "i < length tbl \<and> strcmp program (name (tbl ! i)) \<noteq> 0")
    case True
    then have "get_hard_coding_data_loop tbl program (i + 1) = Some k"
      using "1.prems" by (subst (asm) get_hard_coding_data_loop.simps) simp
    with True "1.IH" have ih: "i + 1 \<le> k \<and> k < length tbl \<and> name (tbl ! k) = program \<and>
        (\<forall>j. i + 1 \<le> j \<and> j < k \<longrightarrow> name (tbl ! j) \<noteq> program)"
      by simp
    from True have "name (tbl ! i) \<noteq> program"
      by (auto simp: strcmp_eq_0_iff)
    with ih show ?thesis
      by (metis Suc_eq_plus1 Suc_leI le_neq_implies_less less_or_eq_imp_le not_less_eq_eq order.strict_trans1 lessI)
  next
    case False
    with "1.prems" show ?thesis
      by (subst (asm) get_hard_coding_data_loop.simps)
         (auto simp: strcmp_eq_0_iff split: if_splits)
  qed
qed

lemma get_hard_coding_data_loop_None:
  "get_hard_coding_data_loop tbl program i = None \<longleftrightarrow>
   (\<forall>j. i \<le> j \<and> j < length tbl \<longrightarrow> name (tbl ! j) \<noteq> program)"
proof (induction tbl program i rule: get_hard_coding_data_loop.induct)
  case (1 tbl program i)
  show ?case
  proof (cases "i < length tbl")
    case False
    then show ?thesis
      by (subst get_hard_coding_data_loop.simps) auto
  next
    case True
    show ?thesis
    proof (cases "strcmp program (name (tbl ! i)) = 0")
      case eq: True
      with True have "get_hard_coding_data_loop tbl program i = Some i"
        by (subst get_hard_coding_data_loop.simps) simp
      moreover from eq have "name (tbl ! i) = program"
        by (simp add: strcmp_eq_0_iff)
      ultimately show ?thesis
        using True by auto
    next
      case ne: False
      then have n: "name (tbl ! i) \<noteq> program"
        by (auto simp: strcmp_eq_0_iff)
      from True ne have "get_hard_coding_data_loop tbl program i =
          get_hard_coding_data_loop tbl program (i + 1)"
        by (subst get_hard_coding_data_loop.simps) simp
      with "1.IH" True ne have "get_hard_coding_data_loop tbl program i = None \<longleftrightarrow>
          (\<forall>j. i + 1 \<le> j \<and> j < length tbl \<longrightarrow> name (tbl ! j) \<noteq> program)"
        by simp
      also have "\<dots> \<longleftrightarrow> (\<forall>j. i \<le> j \<and> j < length tbl \<longrightarrow> name (tbl ! j) \<noteq> program)"
        using n by (metis Suc_eq_plus1 Suc_leI le_neq_implies_less le_add1 order.trans)
      finally show ?thesis .
    qed
  qed
qed


lemma fst_pvr_get_hard_coding_data:
  "fst (pvr_get_hard_coding_data tbl program w) = get_hard_coding_data_loop tbl program 0"
  by (simp add: pvr_get_hard_coding_data_def split: option.splits)

lemma pvr_get_hard_coding_data_Some:
  "get_hard_coding_data_loop tbl program 0 = Some i \<Longrightarrow>
   pvr_get_hard_coding_data tbl program w = (Some i, w)"
  by (simp add: pvr_get_hard_coding_data_def)

lemma pvr_get_hard_coding_data_None:
  "get_hard_coding_data_loop tbl program 0 = None \<Longrightarrow>
   pvr_get_hard_coding_data tbl program w =
     (None, w\<lparr>logged := logged w @
        [(MESA_LOG_ERROR, ''Could not find hard coding data for '' @ program)]\<rparr>)"
  by (simp add: pvr_get_hard_coding_data_def mesa_loge_def)

lemma get_hard_coding_data_loop_distinct:
  assumes "distinct (map name tbl)" and "k < length tbl"
  shows "get_hard_coding_data_loop tbl (name (tbl ! k)) 0 = Some k"
proof (cases "get_hard_coding_data_loop tbl (name (tbl ! k)) 0")
  case None
  with assms(2) show ?thesis
    by (auto simp: get_hard_coding_data_loop_None)
next
  case (Some i)
  then have i: "i < length tbl" "name (tbl ! i) = name (tbl ! k)"
    using get_hard_coding_data_loop_Some [OF Some] by auto
  with assms have "i = k"
    by (metis distinct_conv_nth length_map nth_map)
  with Some show ?thesis by simp
qed

lemma hard_coding_table_names: "map name (hard_coding_table s r u) = [''simple-compute'']"
  by (simp add: hard_coding_table_def)

text \<open>
  Claim C3. \<open>pvr_get_hard_coding_data\<close> scans the table in order and returns the first
  entry whose name equals the process name, leaving the log as it was; when no name
  matches it appends one error-level message naming the process and returns \<open>NULL\<close>.
  For every entry of the shipped table, looking up the entry's own name returns that
  entry.
\<close>

theorem pvr_get_hard_coding_data_first_match:
  "((\<exists>e\<in>set tbl. name e = program) \<longrightarrow>
      (\<exists>i. pvr_get_hard_coding_data tbl program w = (Some i, w) \<and> i < length tbl \<and>
           name (tbl ! i) = program \<and> (\<forall>j<i. name (tbl ! j) \<noteq> program))) \<and>
   ((\<forall>e\<in>set tbl. name e \<noteq> program) \<longrightarrow>
      pvr_get_hard_coding_data tbl program w =
        (None, w\<lparr>logged := logged w @
           [(MESA_LOG_ERROR, ''Could not find hard coding data for '' @ program)]\<rparr>)) \<and>
   (\<forall>k<length (hard_coding_table s r u).
      pvr_get_hard_coding_data (hard_coding_table s r u)
        (name (hard_coding_table s r u ! k)) w' = (Some k, w'))"
proof (intro conjI impI allI)
  assume "\<exists>e\<in>set tbl. name e = program"
  then obtain j where "j < length tbl" "name (tbl ! j) = program"
    by (auto simp: in_set_conv_nth)
  then have "get_hard_coding_data_loop tbl program 0 \<noteq> None"
    by (auto simp: get_hard_coding_data_loop_None)
  then obtain i where i: "get_hard_coding_data_loop tbl program 0 = Some i"
    by auto
  from get_hard_coding_data_loop_Some [OF i] pvr_get_hard_coding_data_Some [OF i]
  show "\<exists>i. pvr_get_hard_coding_data tbl program w = (Some i, w) \<and> i < length tbl \<and>
           name (tbl ! i) = program \<and> (\<forall>j<i. name (tbl ! j) \<noteq> program)"
    by auto
next
  assume "\<forall>e\<in>set tbl. name e \<noteq> program"
  then have "get_hard_coding_data_loop tbl program 0 = None"
    by (auto simp: get_hard_coding_data_loop_None)
  then show "pvr_get_hard_coding_data tbl program w =
        (None, w\<lparr>logged := logged w @
           [(MESA_LOG_ERROR, ''Could not find hard coding data for '' @ program)]\<rparr>)"
    by (rule pvr_get_hard_coding_data_None)
next
  fix k
  assume "k < length (hard_coding_table s r u)"
  then show "pvr_get_hard_coding_data (hard_coding_table s r u)
        (name (hard_coding_table s r u ! k)) w' = (Some k, w')"
    by (intro pvr_get_hard_coding_data_Some get_hard_coding_data_loop_distinct)
       (simp_all add: hard_coding_table_names)
qed

theorem pvr_get_hard_coding_data_first_match_witness:
  "pvr_get_hard_coding_data (hard_coding_table [] 0 ()) ''simple-compute'' \<lparr>logged = []\<rparr> =
     (Some 0, \<lparr>logged = []\<rparr>) \<and>
   pvr_get_hard_coding_data (hard_coding_table [] 0 ()) ''unknown_app'' \<lparr>logged = []\<rparr> =
     (None, \<lparr>logged = [(MESA_LOG_ERROR, ''Could not find hard coding data for unknown_app'')]\<rparr>)"
  using pvr_get_hard_coding_data_first_match
          [of "hard_coding_table [] 0 ()" "''simple-compute''" "\<lparr>logged = []\<rparr>" "[]" 0 "()" "\<lparr>logged = []\<rparr>"]
        pvr_get_hard_coding_data_first_match
          [of "hard_coding_table [] 0 ()" "''unknown_app''" "\<lparr>logged = []\<rparr>" "[]" 0 "()" "\<lparr>logged = []\<rparr>"]
  by (simp add: hard_coding_table_def)


subsection \<open>The compute pipeline\<close>

lemma compute_pipeline_resolved:
  assumes "get_hard_coding_data_loop tbl program 0 = Some i"
    and "type (tbl ! i) = PVR_HARD_CODE_SHADER_TYPE_COMPUTE"
    and "payload (tbl ! i) = compute c"
    and "upload (device w) (shader c) (shader_size c) (cls (device w)) (bo (shader_info c)) =
           (result, bo', device')"
  shows "pvr_hard_code_compute_pipeline tbl cls upload program w =
     (Inr result,
      w\<lparr>logged := logged w @
           [(MESA_LOG_DEBUG, ''Hard coding compute pipeline for '' @ program)],
        device := device',
        shader_state_out := (shader_info c)\<lparr>bo := bo'\<rparr>,
        build_info_out := build_info c\<rparr>)"
proof -
  from get_hard_coding_data_loop_Some [OF assms(1)] have n: "name (tbl ! i) = program"
    by simp
  show ?thesis
    using assms(2-4) n
    by (simp add: pvr_hard_code_compute_pipeline_def
        pvr_get_hard_coding_data_Some [OF assms(1)] mesa_logd_def)
qed

text \<open>
  Claim C4. For a resolved entry of class Compute, \<open>pvr_hard_code_compute_pipeline\<close>
  leaves in \<open>build_info_out\<close> the entry's build info and in \<open>shader_state_out\<close> the
  entry's shader state, equal to the table's values in every member except \<open>bo\<close>, which
  holds what the uploader stored. The value returned is the uploader's result, and the
  device is as one call of the uploader left it: the upload is not repeated.
\<close>

theorem pvr_hard_code_compute_pipeline_copies_entry:
  assumes "fst (pvr_get_hard_coding_data tbl program w) = Some i"
    and "type (tbl ! i) = PVR_HARD_CODE_SHADER_TYPE_COMPUTE"
    and "payload (tbl ! i) = compute c"
    and "pvr_gpu_upload_usc (device w) (shader c) (shader_size c)
           (rogue_get_slc_cache_line_size (device w)) (bo (shader_info c)) =
           (result, bo', device')"
  shows "fst (pvr_hard_code_compute_pipeline tbl rogue_get_slc_cache_line_size
                pvr_gpu_upload_usc program w) = Inr result \<and>
         build_info_out (snd (pvr_hard_code_compute_pipeline tbl rogue_get_slc_cache_line_size
                pvr_gpu_upload_usc program w)) = build_info c \<and>
         shader_state_out (snd (pvr_hard_code_compute_pipeline tbl
                rogue_get_slc_cache_line_size pvr_gpu_upload_usc program w)) =
           (shader_info c)\<lparr>bo := bo'\<rparr> \<and>
         device (snd (pvr_hard_code_compute_pipeline tbl rogue_get_slc_cache_line_size
                pvr_gpu_upload_usc program w)) = device'"
proof -
  from assms(1) have l: "get_hard_coding_data_loop tbl program 0 = Some i"
    by (simp add: fst_pvr_get_hard_coding_data)
  show ?thesis
    by (simp add: compute_pipeline_resolved
        [where upload = pvr_gpu_upload_usc and cls = rogue_get_slc_cache_line_size,
         OF l assms(2,3,4)])
qed

theorem pvr_hard_code_compute_pipeline_copies_entry_witness:
  "fst (pvr_hard_code_compute_pipeline (hard_coding_table [1, 2, 3] 7 0)
          (\<lambda>d. 64) (test_upload (- 3)) ''simple-compute'' test_compute_state) = Inr (- 3) \<and>
   build_info_out (snd (pvr_hard_code_compute_pipeline (hard_coding_table [1, 2, 3] 7 0)
          (\<lambda>d. 64) (test_upload (- 3)) ''simple-compute'' test_compute_state)) =
     \<lparr>ubo_data = 0, local_invocation_regs = [0, 1], work_group_regs = [0, 1, 2],
      barrier_reg = 7, usc_temps = 0, explicit_conts_usage = \<lparr>start_offset = 0\<rparr>\<rparr> \<and>
   shader_state_out (snd (pvr_hard_code_compute_pipeline (hard_coding_table [1, 2, 3] 7 0)
          (\<lambda>d. 64) (test_upload (- 3)) ''simple-compute'' test_compute_state)) =
     \<lparr>bo = 4099, uses_atomic_ops = False, uses_barrier = False,
      uses_num_workgroups = False, const_shared_reg_count = 4, input_register_count = 8,
      work_size = 1, coefficient_register_count = 4\<rparr> \<and>
   device (snd (pvr_hard_code_compute_pipeline (hard_coding_table [1, 2, 3] 7 0)
          (\<lambda>d. 64) (test_upload (- 3)) ''simple-compute'' test_compute_state)) = 11"
  using pvr_hard_code_compute_pipeline_copies_entry
    [where tbl = "hard_coding_table [1, 2, 3] 7 0" and program = "''simple-compute''"
       and w = test_compute_state and i = 0
       and c = "case payload (hd (hard_coding_table [1, 2, 3] 7 0)) of compute c \<Rightarrow> c"
       and pvr_gpu_upload_usc = "test_upload (- 3)"
       and rogue_get_slc_cache_line_size = "\<lambda>d. 64"
       and result = "- 3" and bo' = 4099 and device' = 11]
  by (simp add: hard_coding_table_def pvr_get_hard_coding_data_def
      get_hard_coding_data_loop.simps test_upload_def test_compute_state_def)


text \<open>
  Claim C8. With the process name "simple-compute", the shipped table and an uploader
  that returns \<open>VK_SUCCESS\<close>, \<open>pvr_hard_code_compute_pipeline\<close> returns \<open>VK_SUCCESS\<close>,
  the output shader state has \<open>work_size = 1\<close> and the output build info has
  \<open>barrier_reg = ROGUE_REG_UNUSED\<close>.
\<close>

theorem simple_compute_end_to_end:
  assumes "pvr_gpu_upload_usc (device w) s (length s)
             (rogue_get_slc_cache_line_size (device w)) NULL = (VK_SUCCESS, bo', device')"
  shows "fst (pvr_hard_code_compute_pipeline (hard_coding_table s r u)
                rogue_get_slc_cache_line_size pvr_gpu_upload_usc ''simple-compute'' w) =
           Inr VK_SUCCESS \<and>
         work_size (shader_state_out (snd (pvr_hard_code_compute_pipeline
                (hard_coding_table s r u) rogue_get_slc_cache_line_size pvr_gpu_upload_usc
                ''simple-compute'' w))) = 1 \<and>
         barrier_reg (build_info_out (snd (pvr_hard_code_compute_pipeline
                (hard_coding_table s r u) rogue_get_slc_cache_line_size pvr_gpu_upload_usc
                ''simple-compute'' w))) = r"
proof -
  define c where
    "c = \<lparr>shader = s, shader_size = length s,
          shader_info =
            \<lparr>bo = NULL, uses_atomic_ops = False, uses_barrier = False,
             uses_num_workgroups = False, const_shared_reg_count = 4,
             input_register_count = 8, work_size = 1 * 1 * 1,
             coefficient_register_count = 4\<rparr>,
          build_info =
            \<lparr>ubo_data = u, local_invocation_regs = [0, 1], work_group_regs = [0, 1, 2],
             barrier_reg = r, usc_temps = 0,
             explicit_conts_usage = \<lparr>start_offset = 0\<rparr>\<rparr>\<rparr>"
  have l: "get_hard_coding_data_loop (hard_coding_table s r u) ''simple-compute'' 0 = Some 0"
    using get_hard_coding_data_loop_distinct [of "hard_coding_table s r u" 0]
    by (simp add: hard_coding_table_names) (simp add: hard_coding_table_def)
  have t: "type (hard_coding_table s r u ! 0) = PVR_HARD_CODE_SHADER_TYPE_COMPUTE"
    and p: "payload (hard_coding_table s r u ! 0) = compute c"
    by (simp_all add: hard_coding_table_def c_def)
  have up: "pvr_gpu_upload_usc (device w) (shader c) (shader_size c)
      (rogue_get_slc_cache_line_size (device w)) (bo (shader_info c)) =
      (VK_SUCCESS, bo', device')"
    using assms by (simp add: c_def)
  show ?thesis
    by (simp add: compute_pipeline_resolved
        [where upload = pvr_gpu_upload_usc and cls = rogue_get_slc_cache_line_size,
         OF l t p up])
       (simp add: c_def)
qed

theorem simple_compute_end_to_end_witness:
  "fst (pvr_hard_code_compute_pipeline (hard_coding_table [1, 2, 3] 7 0)
          (\<lambda>d. 64) (test_upload VK_SUCCESS) ''simple-compute'' test_compute_state) =
     Inr VK_SUCCESS \<and>
   work_size (shader_state_out (snd (pvr_hard_code_compute_pipeline
          (hard_coding_table [1, 2, 3] 7 0) (\<lambda>d. 64) (test_upload VK_SUCCESS)
          ''simple-compute'' test_compute_state))) = 1 \<and>
   barrier_reg (build_info_out (snd (pvr_hard_code_compute_pipeline
          (hard_coding_table [1, 2, 3] 7 0) (\<lambda>d. 64) (test_upload VK_SUCCESS)
          ''simple-compute'' test_compute_state))) = 7"
  using simple_compute_end_to_end
    [where w = test_compute_state and s = "[1, 2, 3]" and r = 7 and u = 0
       and pvr_gpu_upload_usc = "test_upload VK_SUCCESS"
       and rogue_get_slc_cache_line_size = "\<lambda>d. 64"
       and bo' = 4099 and device' = 11]
  by (simp add: test_upload_def test_compute_state_def)

text \<open>
  Claim C9. Both outputs are written before the uploader is called. When the uploader
  fails, the function returns the uploader's error while \<open>build_info_out\<close> and
  \<open>shader_state_out\<close> already hold the entry's data; and whatever the two output slots
  held before the call has no influence on the result or on the uploader, which sees
  the \<open>bo\<close> slot as the table initialised it.
\<close>

theorem pvr_hard_code_compute_pipeline_not_atomic:
  assumes "fst (pvr_get_hard_coding_data tbl program w) = Some i"
    and "type (tbl ! i) = PVR_HARD_CODE_SHADER_TYPE_COMPUTE"
    and "payload (tbl ! i) = compute c"
    and "pvr_gpu_upload_usc (device w) (shader c) (shader_size c)
           (rogue_get_slc_cache_line_size (device w)) (bo (shader_info c)) =
           (result, bo', device')"
    and "result \<noteq> VK_SUCCESS"
  shows "pvr_hard_code_compute_pipeline tbl rogue_get_slc_cache_line_size
           pvr_gpu_upload_usc program w =
           (Inr result,
            w\<lparr>logged := logged w @
                 [(MESA_LOG_DEBUG, ''Hard coding compute pipeline for '' @ program)],
              device := device',
              shader_state_out := (shader_info c)\<lparr>bo := bo'\<rparr>,
              build_info_out := build_info c\<rparr>) \<and>
         pvr_hard_code_compute_pipeline tbl rogue_get_slc_cache_line_size
           pvr_gpu_upload_usc program
           (w\<lparr>shader_state_out := state_before, build_info_out := info_before\<rparr>) =
         pvr_hard_code_compute_pipeline tbl rogue_get_slc_cache_line_size
           pvr_gpu_upload_usc program w"
proof -
  from assms(1) have l: "get_hard_coding_data_loop tbl program 0 = Some i"
    by (simp add: fst_pvr_get_hard_coding_data)
  note r = compute_pipeline_resolved
    [where upload = pvr_gpu_upload_usc and cls = rogue_get_slc_cache_line_size,
     OF l assms(2,3)]
  have 1: "pvr_hard_code_compute_pipeline tbl rogue_get_slc_cache_line_size
           pvr_gpu_upload_usc program w =
           (Inr result,
            w\<lparr>logged := logged w @
                 [(MESA_LOG_DEBUG, ''Hard coding compute pipeline for '' @ program)],
              device := device',
              shader_state_out := (shader_info c)\<lparr>bo := bo'\<rparr>,
              build_info_out := build_info c\<rparr>)"
    by (rule r) (rule assms(4))
  have 2: "pvr_hard_code_compute_pipeline tbl rogue_get_slc_cache_line_size
           pvr_gpu_upload_usc program
           (w\<lparr>shader_state_out := state_before, build_info_out := info_before\<rparr>) =
           (Inr result,
            w\<lparr>logged := logged w @
                 [(MESA_LOG_DEBUG, ''Hard coding compute pipeline for '' @ program)],
              device := device',
              shader_state_out := (shader_info c)\<lparr>bo := bo'\<rparr>,
              build_info_out := build_info c\<rparr>)"
    using assms(4)
    by (subst r [where w = "w\<lparr>shader_state_out := state_before,
          build_info_out := info_before\<rparr>" and result = result and bo' = bo'
          and device' = device']) simp_all
  from 1 2 show ?thesis by simp
qed


theorem pvr_hard_code_compute_pipeline_not_atomic_witness:
  "- 3 \<noteq> VK_SUCCESS \<and>
   pvr_hard_code_compute_pipeline (hard_coding_table [1, 2, 3] 7 0)
      (\<lambda>d. 64) (test_upload (- 3)) ''simple-compute'' test_compute_state =
     (Inr (- 3),
      \<lparr>logged = [(MESA_LOG_DEBUG, ''Hard coding compute pipeline for simple-compute'')],
       device = 11,
       shader_state_out =
         \<lparr>bo = 4099, uses_atomic_ops = False, uses_barrier = False,
          uses_num_workgroups = False, const_shared_reg_count = 4,
          input_register_count = 8, work_size = 1, coefficient_register_count = 4\<rparr>,
       build_info_out =
         \<lparr>ubo_data = 0, local_invocation_regs = [0, 1], work_group_regs = [0, 1, 2],
          barrier_reg = 7, usc_temps = 0, explicit_conts_usage = \<lparr>start_offset = 0\<rparr>\<rparr>\<rparr>)"
  using pvr_hard_code_compute_pipeline_not_atomic
    [where tbl = "hard_coding_table [1, 2, 3] 7 0" and program = "''simple-compute''"
       and w = test_compute_state and i = 0
       and c = "\<lparr>shader = [1, 2, 3], shader_size = 3,
          shader_info =
            \<lparr>bo = NULL, uses_atomic_ops = False, uses_barrier = False,
             uses_num_workgroups = False, const_shared_reg_count = 4,
             input_register_count = 8, work_size = 1, coefficient_register_count = 4\<rparr>,
          build_info =
            \<lparr>ubo_data = 0, local_invocation_regs = [0, 1], work_group_regs = [0, 1, 2],
             barrier_reg = 7, usc_temps = 0,
             explicit_conts_usage = \<lparr>start_offset = 0\<rparr>\<rparr>\<rparr>"
       and pvr_gpu_upload_usc = "test_upload (- 3)"
       and rogue_get_slc_cache_line_size = "\<lambda>d. 64"
       and result = "- 3" and bo' = 4099 and device' = 11]
  by (simp add: hard_coding_table_def pvr_get_hard_coding_data_def
      get_hard_coding_data_loop.simps test_upload_def test_compute_state_def
      VK_SUCCESS_def NULL_def)

subsection \<open>The shipped table and the graphics accessors\<close>

lemma graphics_entry_checks_wrong_type:
  "type (tbl ! i) \<noteq> PVR_HARD_CODE_SHADER_TYPE_GRAPHICS \<Longrightarrow>
   graphics_entry_checks tbl (Some i) pipeline_n =
     Inl (Assertion_Failed Assert_type_is_graphics)"
  by (simp add: graphics_entry_checks_def)

text \<open>
  Claim C10. The shipped table has exactly one entry, named "simple-compute", of class
  Compute. Hence whenever the lookup succeeds, the resolved entry is of class Compute and
  each of the four graphics accessors stops at its first assertion, the class check,
  with the caller's state untouched.
\<close>

theorem shipped_table_graphics_unreachable:
  assumes "fst (pvr_get_hard_coding_data (hard_coding_table s r u) program w) = Some i"
  shows "length (hard_coding_table s r u) = 1 \<and>
         name (hard_coding_table s r u ! 0) = ''simple-compute'' \<and>
         type (hard_coding_table s r u ! 0) = PVR_HARD_CODE_SHADER_TYPE_COMPUTE \<and>
         type (hard_coding_table s r u ! i) = PVR_HARD_CODE_SHADER_TYPE_COMPUTE \<and>
         pvr_hard_code_graphics_shaders (hard_coding_table s r u) program pipeline_n w_shaders =
           (Inl (Assertion_Failed Assert_type_is_graphics), w_shaders) \<and>
         pvr_hard_code_graphics_vertex_state (hard_coding_table s r u) program pipeline_n w_vertex =
           (Inl (Assertion_Failed Assert_type_is_graphics), w_vertex) \<and>
         pvr_hard_code_graphics_fragment_state (hard_coding_table s r u) program pipeline_n w_fragment =
           (Inl (Assertion_Failed Assert_type_is_graphics), w_fragment) \<and>
         pvr_hard_code_graphics_inject_build_info (hard_coding_table s r u) program
           pipeline_n w_inject =
           (Inl (Assertion_Failed Assert_type_is_graphics), w_inject)"
proof -
  let ?tbl = "hard_coding_table s r u"
  from assms have l: "get_hard_coding_data_loop ?tbl program 0 = Some i"
    by (simp add: fst_pvr_get_hard_coding_data)
  have len: "length ?tbl = 1"
    and n0: "name (?tbl ! 0) = ''simple-compute''"
    and t0: "type (?tbl ! 0) = PVR_HARD_CODE_SHADER_TYPE_COMPUTE"
    by (simp_all add: hard_coding_table_def)
  from get_hard_coding_data_loop_Some [OF l] len have i: "i = 0"
    by simp
  with t0 have ti: "type (?tbl ! i) = PVR_HARD_CODE_SHADER_TYPE_COMPUTE"
    by simp
  then have c: "graphics_entry_checks ?tbl (Some i) pipeline_n =
      Inl (Assertion_Failed Assert_type_is_graphics)"
    by (simp add: graphics_entry_checks_wrong_type)
  have "pvr_hard_code_graphics_shaders ?tbl program pipeline_n w_shaders =
           (Inl (Assertion_Failed Assert_type_is_graphics), w_shaders)"
    by (simp add: pvr_hard_code_graphics_shaders_def pvr_get_hard_coding_data_Some [OF l] c)
  moreover have "pvr_hard_code_graphics_vertex_state ?tbl program pipeline_n w_vertex =
           (Inl (Assertion_Failed Assert_type_is_graphics), w_vertex)"
    by (simp add: pvr_hard_code_graphics_vertex_state_def
        pvr_get_hard_coding_data_Some [OF l] c)
  moreover have "pvr_hard_code_graphics_fragment_state ?tbl program pipeline_n w_fragment =
           (Inl (Assertion_Failed Assert_type_is_graphics), w_fragment)"
    by (simp add: pvr_hard_code_graphics_fragment_state_def
        pvr_get_hard_coding_data_Some [OF l] c)
  moreover have "pvr_hard_code_graphics_inject_build_info ?tbl program pipeline_n w_inject =
           (Inl (Assertion_Failed Assert_type_is_graphics), w_inject)"
    by (simp add: pvr_hard_code_graphics_inject_build_info_def
        pvr_get_hard_coding_data_Some [OF l] c)
  ultimately show ?thesis
    using len n0 t0 ti by simp
qed

theorem shipped_table_graphics_unreachable_witness:
  "fst (pvr_get_hard_coding_data (hard_coding_table [1, 2, 3] 7 (0::nat)) ''simple-compute''
          \<lparr>logged = []\<rparr>) = Some 0 \<and>
   pvr_hard_code_graphics_shaders (hard_coding_table [1, 2, 3] 7 (0::nat)) ''simple-compute'' 0
       \<lparr>logged = [], vert_shader_out = 0, frag_shader_out = 0\<rparr> =
     (Inl (Assertion_Failed Assert_type_is_graphics),
      \<lparr>logged = [], vert_shader_out = 0, frag_shader_out = 0\<rparr>)"
  using shipped_table_graphics_unreachable
    [where s = "[1, 2, 3]" and r = 7 and u = "0::nat" and program = "''simple-compute''"
       and w = "\<lparr>logged = []\<rparr>" and i = 0 and pipeline_n = 0
       and w_shaders = "\<lparr>logged = [], vert_shader_out = 0, frag_shader_out = 0\<rparr>"]
  by (simp add: hard_coding_table_def pvr_get_hard_coding_data_def
      get_hard_coding_data_loop.simps)

subsection \<open>The graphics accessors on a graphics entry\<close>


lemma graphics_entry_checks_in_range:
  "type (tbl ! i) = PVR_HARD_CODE_SHADER_TYPE_GRAPHICS \<Longrightarrow>
   payload (tbl ! i) = graphics g \<Longrightarrow> pipeline_n < shader_count g \<Longrightarrow>
   graphics_entry_checks tbl (Some i) pipeline_n = Inr (tbl ! i, g)"
  by (simp add: graphics_entry_checks_def)

lemma graphics_entry_checks_out_of_range:
  "type (tbl ! i) = PVR_HARD_CODE_SHADER_TYPE_GRAPHICS \<Longrightarrow>
   payload (tbl ! i) = graphics g \<Longrightarrow> \<not> pipeline_n < shader_count g \<Longrightarrow>
   graphics_entry_checks tbl (Some i) pipeline_n =
     Inl (Assertion_Failed Assert_pipeline_n_in_range)"
  by (simp add: graphics_entry_checks_def)

lemma index_in_array:
  "pipeline_n < count \<Longrightarrow> unat count \<le> length xs \<Longrightarrow> unat pipeline_n < length xs"
  for pipeline_n count :: "32 word"
  by (simp add: word_less_nat_alt)

text \<open>
  Claim C1. On a resolved entry of class Graphics and for every \<open>pipeline_n\<close> below
  \<open>shader_count\<close>, \<open>pvr_hard_code_graphics_vertex_state\<close> and
  \<open>pvr_hard_code_graphics_fragment_state\<close> copy element 0 of the entry's
  \<open>vert_shader_states\<close> and \<open>frag_shader_states\<close> into the caller's output, whatever
  \<open>pipeline_n\<close> is, and change nothing else.
\<close>

theorem pvr_hard_code_graphics_states_read_index_0:
  assumes "fst (pvr_get_hard_coding_data tbl program w) = Some i"
    and "type (tbl ! i) = PVR_HARD_CODE_SHADER_TYPE_GRAPHICS"
    and "payload (tbl ! i) = graphics g"
    and "pipeline_n < shader_count g"
    and "unat (shader_count g) \<le> length (vert_shader_states g)"
    and "unat (shader_count g) \<le> length (frag_shader_states g)"
  shows "pvr_hard_code_graphics_vertex_state tbl program pipeline_n w_vertex =
           (Inr (), w_vertex\<lparr>vert_state_out := vert_shader_states g ! 0\<rparr>) \<and>
         pvr_hard_code_graphics_fragment_state tbl program pipeline_n w_fragment =
           (Inr (), w_fragment\<lparr>frag_state_out := frag_shader_states g ! 0\<rparr>)"
proof -
  from assms(1) have l: "get_hard_coding_data_loop tbl program 0 = Some i"
    by (simp add: fst_pvr_get_hard_coding_data)
  note c = graphics_entry_checks_in_range [OF assms(2,3,4)]
  from index_in_array [OF assms(4,5)] have v: "0 < length (vert_shader_states g)"
    by (rule le_less_trans [OF le0])
  from index_in_array [OF assms(4,6)] have f: "0 < length (frag_shader_states g)"
    by (rule le_less_trans [OF le0])
  have "pvr_hard_code_graphics_vertex_state tbl program pipeline_n w_vertex =
           (Inr (), w_vertex\<lparr>vert_state_out := vert_shader_states g ! 0\<rparr>)"
    using v by (simp add: pvr_hard_code_graphics_vertex_state_def
        pvr_get_hard_coding_data_Some [OF l] c)
  moreover have "pvr_hard_code_graphics_fragment_state tbl program pipeline_n w_fragment =
           (Inr (), w_fragment\<lparr>frag_state_out := frag_shader_states g ! 0\<rparr>)"
    using f by (simp add: pvr_hard_code_graphics_fragment_state_def
        pvr_get_hard_coding_data_Some [OF l] c)
  ultimately show ?thesis by simp
qed

theorem pvr_hard_code_graphics_states_read_index_0_witness:
  "pvr_hard_code_graphics_vertex_state test_graphics_table ''test-graphics'' 1
      \<lparr>logged = [], vert_state_out =
         \<lparr>vert_stage_state = \<lparr>coefficient_size = 0, temps_count = 0, stage_rest = 0\<rparr>,
          vert_rest = 0\<rparr>\<rparr> =
     (Inr (),
      \<lparr>logged = [], vert_state_out =
         \<lparr>vert_stage_state = \<lparr>coefficient_size = 4, temps_count = 2, stage_rest = 10\<rparr>,
          vert_rest = 11\<rparr>\<rparr>) \<and>
   pvr_hard_code_graphics_fragment_state test_graphics_table ''test-graphics'' 1
      \<lparr>logged = [], frag_state_out =
         \<lparr>frag_stage_state = \<lparr>coefficient_size = 0, temps_count = 0, stage_rest = 0\<rparr>,
          frag_rest = 0\<rparr>\<rparr> =
     (Inr (),
      \<lparr>logged = [], frag_state_out =
         \<lparr>frag_stage_state = \<lparr>coefficient_size = 8, temps_count = 5, stage_rest = 20\<rparr>,
          frag_rest = 21\<rparr>\<rparr>)"
  using pvr_hard_code_graphics_states_read_index_0
    [where tbl = test_graphics_table and program = "''test-graphics''"
       and w = "\<lparr>logged = []\<rparr>" and i = 0 and g = test_graphics and pipeline_n = 1
       and w_vertex = "\<lparr>logged = [], vert_state_out =
         \<lparr>vert_stage_state = \<lparr>coefficient_size = 0, temps_count = 0, stage_rest = 0\<rparr>,
          vert_rest = 0\<rparr>\<rparr>"
       and w_fragment = "\<lparr>logged = [], frag_state_out =
         \<lparr>frag_stage_state = \<lparr>coefficient_size = 0, temps_count = 0, stage_rest = 0\<rparr>,
          frag_rest = 0\<rparr>\<rparr>"]
  by (simp add: test_graphics_table_def test_graphics_def pvr_get_hard_coding_data_def
      get_hard_coding_data_loop.simps)

text \<open>
  Claim C5. On a resolved entry of class Graphics and for every \<open>pipeline_n\<close> below
  \<open>shader_count\<close>, \<open>pvr_hard_code_graphics_shaders\<close> stores in the two output slots the
  pointers found at index \<open>pipeline_n\<close> of \<open>vert_shaders\<close> and \<open>frag_shaders\<close>: the
  addresses held by the table, not copies of the binaries. Apart from one debug message
  nothing else changes; the function has no device and no uploader to call.
\<close>

theorem pvr_hard_code_graphics_shaders_by_reference:
  assumes "fst (pvr_get_hard_coding_data tbl program w) = Some i"
    and "type (tbl ! i) = PVR_HARD_CODE_SHADER_TYPE_GRAPHICS"
    and "payload (tbl ! i) = graphics g"
    and "pipeline_n < shader_count g"
    and "unat (shader_count g) \<le> length (vert_shaders g)"
    and "unat (shader_count g) \<le> length (frag_shaders g)"
  shows "pvr_hard_code_graphics_shaders tbl program pipeline_n w =
           (Inr (),
            w\<lparr>logged := logged w @
                 [(MESA_LOG_DEBUG, ''Hard coding graphics pipeline for '' @ program)],
              vert_shader_out := vert_shaders g ! unat pipeline_n,
              frag_shader_out := frag_shaders g ! unat pipeline_n\<rparr>)"
proof -
  from assms(1) have l: "get_hard_coding_data_loop tbl program 0 = Some i"
    by (simp add: fst_pvr_get_hard_coding_data)
  from get_hard_coding_data_loop_Some [OF l] have n: "name (tbl ! i) = program"
    by simp
  note c = graphics_entry_checks_in_range [OF assms(2,3,4)]
  show ?thesis
    using index_in_array [OF assms(4,5)] index_in_array [OF assms(4,6)] n
    by (simp add: pvr_hard_code_graphics_shaders_def
        pvr_get_hard_coding_data_Some [OF l] c mesa_logd_def)
qed

theorem pvr_hard_code_graphics_shaders_by_reference_witness:
  "pvr_hard_code_graphics_shaders test_graphics_table ''test-graphics'' 1
      \<lparr>logged = [], vert_shader_out = 0, frag_shader_out = 0\<rparr> =
     (Inr (),
      \<lparr>logged = [(MESA_LOG_DEBUG, ''Hard coding graphics pipeline for test-graphics'')],
       vert_shader_out = 101, frag_shader_out = 201\<rparr>)"
  using pvr_hard_code_graphics_shaders_by_reference
    [where tbl = test_graphics_table and program = "''test-graphics''"
       and w = "\<lparr>logged = [], vert_shader_out = 0, frag_shader_out = 0\<rparr>"
       and i = 0 and g = test_graphics and pipeline_n = 1]
  by (simp add: test_graphics_table_def test_graphics_def pvr_get_hard_coding_data_def
      get_hard_coding_data_loop.simps)

text \<open>
  Claim C7. On a resolved entry of class Graphics, for every \<open>pipeline_n\<close> that is not
  below \<open>shader_count\<close>, each of the four graphics accessors stops at the range
  assertion and leaves the caller's state, outputs included, exactly as it was.
\<close>

theorem graphics_accessors_out_of_range:
  assumes "fst (pvr_get_hard_coding_data tbl program w) = Some i"
    and "type (tbl ! i) = PVR_HARD_CODE_SHADER_TYPE_GRAPHICS"
    and "payload (tbl ! i) = graphics g"
    and "shader_count g \<le> pipeline_n"
  shows "pvr_hard_code_graphics_shaders tbl program pipeline_n w_shaders =
           (Inl (Assertion_Failed Assert_pipeline_n_in_range), w_shaders) \<and>
         pvr_hard_code_graphics_vertex_state tbl program pipeline_n w_vertex =
           (Inl (Assertion_Failed Assert_pipeline_n_in_range), w_vertex) \<and>
         pvr_hard_code_graphics_fragment_state tbl program pipeline_n w_fragment =
           (Inl (Assertion_Failed Assert_pipeline_n_in_range), w_fragment) \<and>
         pvr_hard_code_graphics_inject_build_info tbl program pipeline_n w_inject =
           (Inl (Assertion_Failed Assert_pipeline_n_in_range), w_inject)"
proof -
  from assms(1) have l: "get_hard_coding_data_loop tbl program 0 = Some i"
    by (simp add: fst_pvr_get_hard_coding_data)
  from assms(4) have "\<not> pipeline_n < shader_count g"
    by simp
  note c = graphics_entry_checks_out_of_range [OF assms(2,3) this]
  have "pvr_hard_code_graphics_shaders tbl program pipeline_n w_shaders =
           (Inl (Assertion_Failed Assert_pipeline_n_in_range), w_shaders)"
    by (simp add: pvr_hard_code_graphics_shaders_def pvr_get_hard_coding_data_Some [OF l] c)
  moreover have "pvr_hard_code_graphics_vertex_state tbl program pipeline_n w_vertex =
           (Inl (Assertion_Failed Assert_pipeline_n_in_range), w_vertex)"
    by (simp add: pvr_hard_code_graphics_vertex_state_def
        pvr_get_hard_coding_data_Some [OF l] c)
  moreover have "pvr_hard_code_graphics_fragment_state tbl program pipeline_n w_fragment =
           (Inl (Assertion_Failed Assert_pipeline_n_in_range), w_fragment)"
    by (simp add: pvr_hard_code_graphics_fragment_state_def
        pvr_get_hard_coding_data_Some [OF l] c)
  moreover have "pvr_hard_code_graphics_inject_build_info tbl program pipeline_n w_inject =
           (Inl (Assertion_Failed Assert_pipeline_n_in_range), w_inject)"
    by (simp add: pvr_hard_code_graphics_inject_build_info_def
        pvr_get_hard_coding_data_Some [OF l] c)
  ultimately show ?thesis by simp
qed

theorem graphics_accessors_out_of_range_witness:
  "pvr_hard_code_graphics_shaders test_graphics_table ''test-graphics'' 2
      \<lparr>logged = [], vert_shader_out = 0, frag_shader_out = 0\<rparr> =
     (Inl (Assertion_Failed Assert_pipeline_n_in_range),
      \<lparr>logged = [], vert_shader_out = 0, frag_shader_out = 0\<rparr>)"
  using graphics_accessors_out_of_range
    [where tbl = test_graphics_table and program = "''test-graphics''"
       and w = "\<lparr>logged = []\<rparr>"
       and w_shaders = "\<lparr>logged = [], vert_shader_out = 0, frag_shader_out = 0\<rparr>"
       and i = 0 and g = test_graphics and pipeline_n = 2]
  by (simp add: test_graphics_table_def test_graphics_def pvr_get_hard_coding_data_def
      get_hard_coding_data_loop.simps)


lemma inject_build_info_resolved:
  assumes "get_hard_coding_data_loop tbl program 0 = Some i"
    and "type (tbl ! i) = PVR_HARD_CODE_SHADER_TYPE_GRAPHICS"
    and "payload (tbl ! i) = graphics g"
    and "pipeline_n < shader_count g"
    and "unat (shader_count g) \<le> length (build_infos g)"
    and "unat (shader_count g) \<le> length (vert_shader_states g)"
    and "unat (shader_count g) \<le> length (frag_shader_states g)"
    and "info = build_infos g ! unat pipeline_n"
    and "vs = vert_stage_state (vert_shader_states g ! unat pipeline_n)"
    and "fs = frag_stage_state (frag_shader_states g ! unat pipeline_n)"
    and "w4 = w\<lparr>ctx := (ctx w)
            \<lparr>ctx_stage_data := stage_data info,
             common_data := (common_data (ctx w))
               (MESA_SHADER_VERTEX := vert_common_data info,
                MESA_SHADER_FRAGMENT := frag_common_data info)\<rparr>\<rparr>"
  shows "pvr_hard_code_graphics_inject_build_info tbl program pipeline_n w =
     (if temps (vert_common_data info) \<noteq> temps_count vs
      then (Inl (Assertion_Failed Assert_vertex_temps), w4)
      else if temps (frag_common_data info) \<noteq> temps_count fs
      then (Inl (Assertion_Failed Assert_fragment_temps), w4)
      else if coeffs (vert_common_data info) \<noteq> coefficient_size vs
      then (Inl (Assertion_Failed Assert_vertex_coeffs), w4)
      else if coeffs (frag_common_data info) \<noteq> coefficient_size fs
      then (Inl (Assertion_Failed Assert_fragment_coeffs), w4)
      else (Inr (),
            w4\<lparr>vert_common_data_out := vert_explicit_conts_usage info,
               frag_common_data_out := frag_explicit_conts_usage info\<rparr>))"
proof -
  note c = graphics_entry_checks_in_range [OF assms(2,3,4)]
  show ?thesis
    using index_in_array [OF assms(4,5)] index_in_array [OF assms(4,6)]
      index_in_array [OF assms(4,7)] assms(8-11)
    by (simp add: pvr_hard_code_graphics_inject_build_info_def
        pvr_get_hard_coding_data_Some [OF assms(1)] c Let_def)
qed

text \<open>
  Claim C6. On a resolved entry of class Graphics with \<open>pipeline_n\<close> below
  \<open>shader_count\<close>, \<open>pvr_hard_code_graphics_inject_build_info\<close> passes its four
  consistency assertions exactly when the temporaries and coefficient counts of the
  vertex and fragment common data taken from the build info at \<open>pipeline_n\<close> equal
  \<open>temps_count\<close> and \<open>coefficient_size\<close> of the stage state of the vertex and fragment
  shader states at \<open>pipeline_n\<close>. Otherwise the outcome is the first failing assertion;
  mismatched temporaries fail the vertex or the fragment temporaries assertion. In
  either case the common data has been written into the context by then.
\<close>

theorem inject_build_info_consistency_assertions:
  assumes "fst (pvr_get_hard_coding_data tbl program w) = Some i"
    and "type (tbl ! i) = PVR_HARD_CODE_SHADER_TYPE_GRAPHICS"
    and "payload (tbl ! i) = graphics g"
    and "pipeline_n < shader_count g"
    and "unat (shader_count g) \<le> length (build_infos g)"
    and "unat (shader_count g) \<le> length (vert_shader_states g)"
    and "unat (shader_count g) \<le> length (frag_shader_states g)"
    and "info = build_infos g ! unat pipeline_n"
    and "vs = vert_stage_state (vert_shader_states g ! unat pipeline_n)"
    and "fs = frag_stage_state (frag_shader_states g ! unat pipeline_n)"
  shows "(fst (pvr_hard_code_graphics_inject_build_info tbl program pipeline_n w) = Inr ()
            \<longleftrightarrow>
          temps (vert_common_data info) = temps_count vs \<and>
          temps (frag_common_data info) = temps_count fs \<and>
          coeffs (vert_common_data info) = coefficient_size vs \<and>
          coeffs (frag_common_data info) = coefficient_size fs) \<and>
         fst (pvr_hard_code_graphics_inject_build_info tbl program pipeline_n w) \<in>
           {Inr (),
            Inl (Assertion_Failed Assert_vertex_temps),
            Inl (Assertion_Failed Assert_fragment_temps),
            Inl (Assertion_Failed Assert_vertex_coeffs),
            Inl (Assertion_Failed Assert_fragment_coeffs)} \<and>
         (temps (vert_common_data info) \<noteq> temps_count vs \<longrightarrow>
            fst (pvr_hard_code_graphics_inject_build_info tbl program pipeline_n w) =
              Inl (Assertion_Failed Assert_vertex_temps)) \<and>
         (temps (vert_common_data info) = temps_count vs \<and>
          temps (frag_common_data info) \<noteq> temps_count fs \<longrightarrow>
            fst (pvr_hard_code_graphics_inject_build_info tbl program pipeline_n w) =
              Inl (Assertion_Failed Assert_fragment_temps)) \<and>
         common_data (ctx (snd (pvr_hard_code_graphics_inject_build_info tbl program
            pipeline_n w))) MESA_SHADER_VERTEX = vert_common_data info \<and>
         common_data (ctx (snd (pvr_hard_code_graphics_inject_build_info tbl program
            pipeline_n w))) MESA_SHADER_FRAGMENT = frag_common_data info"
proof -
  from assms(1) have l: "get_hard_coding_data_loop tbl program 0 = Some i"
    by (simp add: fst_pvr_get_hard_coding_data)
  note r = inject_build_info_resolved [OF l assms(2-10) refl]
  show ?thesis
    unfolding r by simp
qed

theorem inject_build_info_consistency_assertions_witness:
  "fst (pvr_hard_code_graphics_inject_build_info test_graphics_table ''test-graphics'' 0
          test_inject_state) = Inr () \<and>
   fst (pvr_hard_code_graphics_inject_build_info test_graphics_table ''test-graphics'' 1
          test_inject_state) = Inl (Assertion_Failed Assert_vertex_temps) \<and>
   common_data (ctx (snd (pvr_hard_code_graphics_inject_build_info test_graphics_table
          ''test-graphics'' 1 test_inject_state))) MESA_SHADER_VERTEX =
     \<lparr>temps = 99, coeffs = 6, common_rest = 41\<rparr>"
  using inject_build_info_consistency_assertions
    [where tbl = test_graphics_table and program = "''test-graphics''"
       and w = test_inject_state and i = 0 and g = test_graphics and pipeline_n = 0
       and info = "build_infos test_graphics ! 0"
       and vs = "vert_stage_state (vert_shader_states test_graphics ! 0)"
       and fs = "frag_stage_state (frag_shader_states test_graphics ! 0)"]
    inject_build_info_consistency_assertions
    [where tbl = test_graphics_table and program = "''test-graphics''"
       and w = test_inject_state and i = 0 and g = test_graphics and pipeline_n = 1
       and info = "build_infos test_graphics ! 1"
       and vs = "vert_stage_state (vert_shader_states test_graphics ! 1)"
       and fs = "frag_stage_state (frag_shader_states test_graphics ! 1)"]
  by (simp add: test_graphics_table_def test_graphics_def pvr_get_hard_coding_data_def
      get_hard_coding_data_loop.simps)

end
